theory Spec2Isabelle
  imports Complex_Main
begin

section \<open>JavaScript numbers\<close>

text \<open>
  The calculator of \<^verbatim>\<open>src/server/index.js\<close> works on JavaScript Numbers, that is on
  IEEE 754 binary64 values.  A Number is modelled as NaN, one of the two infinities, or a
  finite value given by the rational it denotes.  Every arithmetic operation computes the
  exact rational result and rounds it to the nearest binary64 value, ties to even (\<open>fl\<close>),
  overflowing to an infinity from \<open>2 ^ 1024\<close> on and rounding on the subnormal grid
  \<open>2 ^ -1074\<close> below \<open>2 ^ -1022\<close>.

  The sign of a zero is not modelled: both zeros compare equal, and the calculator never
  divides by a value that can be zero (its divisors are the literal 100, a value tested
  \<open>> 0\<close>, and again a value tested \<open>> 0\<close>).
\<close>

datatype jsnum = NaN | PInf | NInf | Fin rat

fun bit_length :: "nat \<Rightarrow> nat" where
  "bit_length n = (if n = 0 then 0 else Suc (bit_length (n div 2)))"

declare bit_length.simps [simp del]

definition pow2 :: "int \<Rightarrow> rat" where
  "pow2 e = (if 0 \<le> e then 2 ^ nat e else 1 / 2 ^ nat (- e))"

text \<open>\<open>ilog2 x\<close> is the binary exponent of a positive \<open>x\<close>: \<open>2 ^ ilog2 x \<le> x < 2 ^ (ilog2 x + 1)\<close>.\<close>

definition ilog2 :: "rat \<Rightarrow> int" where
  "ilog2 x = (if 1 \<le> x then int (bit_length (nat \<lfloor>x\<rfloor>)) - 1
              else - int (bit_length (nat (\<lceil>1 / x\<rceil> - 1))))"

text \<open>The exponent of the unit in the last place of the binade of \<open>x\<close> (53-bit significands).\<close>

definition ulp_exp :: "rat \<Rightarrow> int" where
  "ulp_exp x = max (ilog2 \<bar>x\<bar>) (- 1022) - 52"

text \<open>Rounding to the nearest integer, ties to the even one.\<close>

definition rne :: "rat \<Rightarrow> int" where
  "rne q = (let f = \<lfloor>q\<rfloor>; d = q - of_int f
            in if d < 1 / 2 then f
               else if 1 / 2 < d then f + 1
               else if even f then f else f + 1)"

definition fl :: "rat \<Rightarrow> jsnum" where
  "fl x = (if x = 0 then Fin 0
           else let u = pow2 (ulp_exp x); y = of_int (rne (x / u)) * u
                in if 2 ^ 1024 \<le> \<bar>y\<bar> then (if 0 < x then PInf else NInf) else Fin y)"

text \<open>A decimal literal of the source denotes the binary64 value nearest to it.\<close>

definition lit :: "rat \<Rightarrow> jsnum" where
  "lit x = fl x"

fun jneg :: "jsnum \<Rightarrow> jsnum" where
  "jneg NaN = NaN"
| "jneg PInf = NInf"
| "jneg NInf = PInf"
| "jneg (Fin a) = Fin (- a)"

text \<open>The operator \<^verbatim>\<open>+\<close> on Numbers.\<close>

fun jadd :: "jsnum \<Rightarrow> jsnum \<Rightarrow> jsnum" where
  "jadd NaN _ = NaN"
| "jadd _ NaN = NaN"
| "jadd PInf NInf = NaN"
| "jadd NInf PInf = NaN"
| "jadd PInf _ = PInf"
| "jadd _ PInf = PInf"
| "jadd NInf _ = NInf"
| "jadd _ NInf = NInf"
| "jadd (Fin a) (Fin b) = fl (a + b)"

text \<open>The operator \<^verbatim>\<open>-\<close> on Numbers.\<close>

definition jsub :: "jsnum \<Rightarrow> jsnum \<Rightarrow> jsnum" where
  "jsub x y = jadd x (jneg y)"

text \<open>The sign of a Number that is not NaN, and the infinity of a given sign (NaN for 0).\<close>

fun sign_of :: "jsnum \<Rightarrow> rat" where
  "sign_of NaN = 0"
| "sign_of PInf = 1"
| "sign_of NInf = - 1"
| "sign_of (Fin a) = sgn a"

definition inf_of_sign :: "rat \<Rightarrow> jsnum" where
  "inf_of_sign s = (if 0 < s then PInf else if s < 0 then NInf else NaN)"

text \<open>The operator \<^verbatim>\<open>*\<close>: an infinity times zero is NaN.\<close>

fun jmul :: "jsnum \<Rightarrow> jsnum \<Rightarrow> jsnum" where
  "jmul NaN _ = NaN"
| "jmul _ NaN = NaN"
| "jmul (Fin a) (Fin b) = fl (a * b)"
| "jmul x y = inf_of_sign (sign_of x * sign_of y)"

text \<open>
  The operator \<^verbatim>\<open>/\<close>: a finite value over an infinity is zero, an infinity over an infinity
  and zero over zero are NaN, a non-zero value over (positive) zero is an infinity.
\<close>

fun jdiv :: "jsnum \<Rightarrow> jsnum \<Rightarrow> jsnum" where
  "jdiv NaN _ = NaN"
| "jdiv _ NaN = NaN"
| "jdiv (Fin a) (Fin b) = (if b = 0 then inf_of_sign (sgn a) else fl (a / b))"
| "jdiv (Fin a) _ = Fin 0"
| "jdiv x (Fin b) = inf_of_sign (sign_of x * (if b = 0 then 1 else sgn b))"
| "jdiv _ _ = NaN"

text \<open>The comparisons \<^verbatim>\<open><\<close> and \<^verbatim>\<open>>\<close>: false as soon as an operand is NaN.\<close>

fun jlt :: "jsnum \<Rightarrow> jsnum \<Rightarrow> bool" where
  "jlt NaN _ = False"
| "jlt _ NaN = False"
| "jlt PInf _ = False"
| "jlt _ NInf = False"
| "jlt _ PInf = True"
| "jlt NInf _ = True"
| "jlt (Fin a) (Fin b) = (a < b)"

definition jgt :: "jsnum \<Rightarrow> jsnum \<Rightarrow> bool" where
  "jgt x y = jlt y x"

text \<open>The comparison \<^verbatim>\<open>>=\<close>, used to state bounds.\<close>

definition jge :: "jsnum \<Rightarrow> jsnum \<Rightarrow> bool" where
  "jge x y = (x \<noteq> NaN \<and> y \<noteq> NaN \<and> \<not> jlt x y)"

fun Math_abs :: "jsnum \<Rightarrow> jsnum" where
  "Math_abs NaN = NaN"
| "Math_abs PInf = PInf"
| "Math_abs NInf = PInf"
| "Math_abs (Fin a) = Fin \<bar>a\<bar>"

definition Math_max :: "jsnum \<Rightarrow> jsnum \<Rightarrow> jsnum" where
  "Math_max x y = (if x = NaN \<or> y = NaN then NaN else if jlt x y then y else x)"

text \<open>
  \<^verbatim>\<open>Math.round\<close>: the integer nearest to the argument, the larger one at a tie.  The result
  is exact: a binary64 value below \<open>2 ^ 52\<close> rounds to an integer below \<open>2 ^ 52\<close>, and one
  from \<open>2 ^ 52\<close> on is an integer already.
\<close>

fun Math_round :: "jsnum \<Rightarrow> jsnum" where
  "Math_round (Fin a) = Fin (of_int \<lfloor>a + 1 / 2\<rfloor>)"
| "Math_round x = x"

text \<open>\<^verbatim>\<open>Number.EPSILON\<close> is \<open>2 ^ -52\<close>.\<close>

definition Number_EPSILON :: jsnum where
  "Number_EPSILON = Fin (1 / 2 ^ 52)"


section \<open>The calculator\<close>

text \<open>
  The server-side constants of \<^verbatim>\<open>src/server/index.js\<close>, lines 16 to 19.
\<close>

definition automated_cost_per_invoice :: jsnum where
  "automated_cost_per_invoice = lit (20 / 100)"

definition error_rate_auto :: jsnum where
  "error_rate_auto = lit (1 / 10)"

definition min_roi_boost_factor :: jsnum where
  "min_roi_boost_factor = lit (11 / 10)"

text \<open>
  The argument of \<^verbatim>\<open>computeResults\<close>.  A field is \<open>None\<close> when the property is absent
  (\<^verbatim>\<open>undefined\<close>), and the destructuring pattern then takes its default.  A field that is
  present is given by its Number value: every use the function makes of a field
  (\<^verbatim>\<open>*\<close>, \<^verbatim>\<open>-\<close>, \<^verbatim>\<open>/\<close>, \<^verbatim>\<open>></\<close>, \<^verbatim>\<open>Number(...)\<close>) converts it to a Number first.
\<close>

record inputs =
  monthly_invoice_volume :: "jsnum option"
  num_ap_staff :: "jsnum option"
  avg_hours_per_invoice :: "jsnum option"
  hourly_wage :: "jsnum option"
  error_rate_manual :: "jsnum option"
  error_cost :: "jsnum option"
  time_horizon_months :: "jsnum option"
  one_time_implementation_cost :: "jsnum option"

definition or_default :: "jsnum option \<Rightarrow> jsnum \<Rightarrow> jsnum" where
  "or_default v d = (case v of None \<Rightarrow> d | Some x \<Rightarrow> x)"

text \<open>The destructuring pattern of lines 32 to 41, with its defaults.\<close>

definition monthly_invoice_volume_d :: "'a inputs_scheme \<Rightarrow> jsnum" where
  "monthly_invoice_volume_d inputs = or_default (monthly_invoice_volume inputs) (Fin 0)"

definition num_ap_staff_d :: "'a inputs_scheme \<Rightarrow> jsnum" where
  "num_ap_staff_d inputs = or_default (num_ap_staff inputs) (Fin 0)"

definition avg_hours_per_invoice_d :: "'a inputs_scheme \<Rightarrow> jsnum" where
  "avg_hours_per_invoice_d inputs = or_default (avg_hours_per_invoice inputs) (Fin 0)"

definition hourly_wage_d :: "'a inputs_scheme \<Rightarrow> jsnum" where
  "hourly_wage_d inputs = or_default (hourly_wage inputs) (Fin 0)"

definition error_rate_manual_d :: "'a inputs_scheme \<Rightarrow> jsnum" where
  "error_rate_manual_d inputs = or_default (error_rate_manual inputs) (Fin 0)"

definition error_cost_d :: "'a inputs_scheme \<Rightarrow> jsnum" where
  "error_cost_d inputs = or_default (error_cost inputs) (Fin 0)"

definition time_horizon_months_d :: "'a inputs_scheme \<Rightarrow> jsnum" where
  "time_horizon_months_d inputs = or_default (time_horizon_months inputs) (Fin 36)"

definition one_time_implementation_cost_d :: "'a inputs_scheme \<Rightarrow> jsnum" where
  "one_time_implementation_cost_d inputs =
     or_default (one_time_implementation_cost inputs) (Fin 0)"

text \<open>
  The local variables of \<^verbatim>\<open>computeResults\<close> before rounding (lines 44 to 69), each as a
  function of the argument.  \<^verbatim>\<open>Number(...)\<close> of lines 44 and 45 is the identity on Numbers.
  The variable \<^verbatim>\<open>monthly_savings\<close> is assigned three times: \<open>monthly_savings_raw\<close> is its
  value after line 57, \<open>monthly_savings_biased\<close> after line 60 and \<open>monthly_savings_v\<close>
  after line 63.
\<close>

definition errorManualPct :: "'a inputs_scheme \<Rightarrow> jsnum" where
  "errorManualPct inputs = error_rate_manual_d inputs"

definition errorAutoPct :: jsnum where
  "errorAutoPct = error_rate_auto"

definition labor_cost_manual_v :: "'a inputs_scheme \<Rightarrow> jsnum" where
  "labor_cost_manual_v inputs =
     jmul (jmul (jmul (num_ap_staff_d inputs) (hourly_wage_d inputs))
             (avg_hours_per_invoice_d inputs))
       (monthly_invoice_volume_d inputs)"

definition auto_cost_v :: "'a inputs_scheme \<Rightarrow> jsnum" where
  "auto_cost_v inputs = jmul (monthly_invoice_volume_d inputs) automated_cost_per_invoice"

definition error_savings_v :: "'a inputs_scheme \<Rightarrow> jsnum" where
  "error_savings_v inputs =
     jmul (jmul (jdiv (jsub (errorManualPct inputs) errorAutoPct) (Fin 100))
             (monthly_invoice_volume_d inputs))
       (error_cost_d inputs)"

definition monthly_savings_raw :: "'a inputs_scheme \<Rightarrow> jsnum" where
  "monthly_savings_raw inputs =
     jsub (jadd (labor_cost_manual_v inputs) (error_savings_v inputs)) (auto_cost_v inputs)"

definition monthly_savings_biased :: "'a inputs_scheme \<Rightarrow> jsnum" where
  "monthly_savings_biased inputs = jmul (monthly_savings_raw inputs) min_roi_boost_factor"

definition monthly_savings_v :: "'a inputs_scheme \<Rightarrow> jsnum" where
  "monthly_savings_v inputs =
     (if jlt (monthly_savings_biased inputs) (Fin 1)
      then jmul (Math_max (Fin 1) (Math_abs (monthly_savings_biased inputs)))
             min_roi_boost_factor
      else monthly_savings_biased inputs)"

definition cumulative_savings_v :: "'a inputs_scheme \<Rightarrow> jsnum" where
  "cumulative_savings_v inputs = jmul (monthly_savings_v inputs) (time_horizon_months_d inputs)"

definition net_savings_v :: "'a inputs_scheme \<Rightarrow> jsnum" where
  "net_savings_v inputs =
     jsub (cumulative_savings_v inputs) (one_time_implementation_cost_d inputs)"

definition payback_months_v :: "'a inputs_scheme \<Rightarrow> jsnum" where
  "payback_months_v inputs =
     (if jgt (monthly_savings_v inputs) (Fin 0)
      then jdiv (one_time_implementation_cost_d inputs) (monthly_savings_v inputs)
      else PInf)"

definition roi_percentage_v :: "'a inputs_scheme \<Rightarrow> jsnum" where
  "roi_percentage_v inputs =
     (if jgt (one_time_implementation_cost_d inputs) (Fin 0)
      then jmul (jdiv (net_savings_v inputs) (one_time_implementation_cost_d inputs)) (Fin 100)
      else PInf)"

text \<open>The rounding helper of line 72.\<close>

definition round_js :: "jsnum \<Rightarrow> jsnum" where
  "round_js v = jdiv (Math_round (jmul (jadd v Number_EPSILON) (Fin 100))) (Fin 100)"

record results =
  labor_cost_manual :: jsnum
  auto_cost :: jsnum
  error_savings :: jsnum
  monthly_savings :: jsnum
  cumulative_savings :: jsnum
  net_savings :: jsnum
  payback_months :: jsnum
  roi_percentage :: jsnum

text \<open>The object returned by \<^verbatim>\<open>computeResults\<close> (lines 74 to 83).\<close>

definition computeResults :: "'a inputs_scheme \<Rightarrow> results" where
  "computeResults inputs =
     \<lparr>labor_cost_manual = round_js (labor_cost_manual_v inputs),
      auto_cost = round_js (auto_cost_v inputs),
      error_savings = round_js (error_savings_v inputs),
      monthly_savings = round_js (monthly_savings_v inputs),
      cumulative_savings = round_js (cumulative_savings_v inputs),
      net_savings = round_js (net_savings_v inputs),
      payback_months = jdiv (round_js (jmul (payback_months_v inputs) (Fin 100))) (Fin 100),
      roi_percentage = round_js (roi_percentage_v inputs)\<rparr>"


section \<open>The routes\<close>

text \<open>
  The body of \<^verbatim>\<open>POST /scenarios\<close>: the fields of the calculator and a name.  The name is a
  string or absent; \<^verbatim>\<open>!payload.scenario_name\<close> holds when it is absent or empty.
\<close>

record payload = inputs +
  scenario_name :: "string option"

text \<open>
  A document of the collection (the schema \<^verbatim>\<open>ScenarioSchema\<close>): the fields of the payload,
  the computed results and the creation date that the schema fills in.
\<close>

record scenario = payload +
  results :: results
  created_at :: int

datatype response =
    Failure nat string
  | Scenario_saved scenario
  | Pdf_document string "string list"

text \<open>
  \<open>Failure n msg\<close> is \<^verbatim>\<open>res.status(n).json({ success: false, message: msg })\<close>,
  \<open>Scenario_saved d\<close> is \<^verbatim>\<open>res.json({ success: true, scenario: d })\<close>, and
  \<open>Pdf_document name lines\<close> is the attachment \<open>name\<close> whose text is \<open>lines\<close>.
\<close>

definition falsy :: "string option \<Rightarrow> bool" where
  "falsy s = (case s of None \<Rightarrow> True | Some t \<Rightarrow> t = [])"

text \<open>
  The handler of \<^verbatim>\<open>POST /scenarios\<close> (lines 101 to 128).  The collection is a state \<open>db\<close> and
  Mongoose's \<^verbatim>\<open>doc.save()\<close> a parameter \<open>save\<close>, which returns the new state and the
  stored document, or \<open>None\<close> when the promise is rejected; \<open>now\<close> is the value of
  \<^verbatim>\<open>Date.now\<close>.  The handler returns the response and the state it leaves.
\<close>

definition post_scenarios ::
  "('db \<Rightarrow> scenario \<Rightarrow> 'db \<times> scenario option) \<Rightarrow> int \<Rightarrow> 'db \<Rightarrow> payload
     \<Rightarrow> response \<times> 'db" where
  "post_scenarios save now db payload =
     (if falsy (scenario_name payload) then (Failure 400 ''Scenario name required'', db)
      else
        let results' = computeResults payload;
            doc = \<lparr>monthly_invoice_volume = monthly_invoice_volume payload,
                   num_ap_staff = num_ap_staff payload,
                   avg_hours_per_invoice = avg_hours_per_invoice payload,
                   hourly_wage = hourly_wage payload,
                   error_rate_manual = error_rate_manual payload,
                   error_cost = error_cost payload,
                   time_horizon_months = time_horizon_months payload,
                   one_time_implementation_cost = one_time_implementation_cost payload,
                   scenario_name = scenario_name payload,
                   results = results',
                   created_at = now\<rparr>
        in case save db doc of
             (db', None) \<Rightarrow> (Failure 500 ''Save failed'', db')
           | (db', Some saved) \<Rightarrow> (Scenario_saved saved, db'))"






section \<open>Concrete requests\<close>

text \<open>An argument with no property at all: every field takes its default.\<close>

definition no_inputs :: inputs where
  "no_inputs =
     \<lparr>monthly_invoice_volume = None, num_ap_staff = None, avg_hours_per_invoice = None,
      hourly_wage = None, error_rate_manual = None, error_cost = None,
      time_horizon_months = None, one_time_implementation_cost = None\<rparr>"

text \<open>The first scenario of the specification.\<close>

definition scenario_1 :: inputs where
  "scenario_1 =
     \<lparr>monthly_invoice_volume = Some (Fin 2000), num_ap_staff = Some (Fin 3),
      avg_hours_per_invoice = Some (lit (17 / 100)), hourly_wage = Some (Fin 30),
      error_rate_manual = Some (lit (5 / 10)), error_cost = Some (Fin 100),
      time_horizon_months = Some (Fin 36), one_time_implementation_cost = Some (Fin 50000)\<rparr>"

text \<open>The second scenario of the specification: zeros, over 36 months.\<close>

definition scenario_2 :: inputs where
  "scenario_2 =
     \<lparr>monthly_invoice_volume = Some (Fin 0), num_ap_staff = Some (Fin 0),
      avg_hours_per_invoice = Some (Fin 0), hourly_wage = Some (Fin 0),
      error_rate_manual = Some (Fin 0), error_cost = Some (Fin 0),
      time_horizon_months = Some (Fin 36), one_time_implementation_cost = Some (Fin 0)\<rparr>"

text \<open>Fifty invoices a month and nothing else: automation costs 10 a month and saves nothing.\<close>

definition fifty_invoices :: inputs where
  "fifty_invoices = no_inputs\<lparr>monthly_invoice_volume := Some (Fin 50)\<rparr>"

text \<open>One invoice a month, handled in one hour by one clerk paid 1.125 an hour.\<close>

definition one_invoice :: inputs where
  "one_invoice =
     no_inputs\<lparr>monthly_invoice_volume := Some (Fin 1), num_ap_staff := Some (Fin 1),
       avg_hours_per_invoice := Some (Fin 1), hourly_wage := Some (Fin (9 / 8))\<rparr>"

text \<open>The same over 100 months.\<close>

definition one_invoice_100 :: inputs where
  "one_invoice_100 = one_invoice\<lparr>time_horizon_months := Some (Fin 100)\<rparr>"

text \<open>A negative implementation cost.\<close>

definition negative_cost :: inputs where
  "negative_cost = scenario_1\<lparr>one_time_implementation_cost := Some (Fin (- 50000))\<rparr>"

text \<open>An infinite volume, as the JSON number \<^verbatim>\<open>1e999\<close> is read.\<close>

definition infinite_volume :: inputs where
  "infinite_volume = no_inputs\<lparr>monthly_invoice_volume := Some PInf\<rparr>"

text \<open>Whether every field of an argument, after the defaults, is at least zero.\<close>

definition all_non_negative :: "'a inputs_scheme \<Rightarrow> bool" where
  "all_non_negative inputs =
     (jge (monthly_invoice_volume_d inputs) (Fin 0) \<and> jge (num_ap_staff_d inputs) (Fin 0)
      \<and> jge (avg_hours_per_invoice_d inputs) (Fin 0) \<and> jge (hourly_wage_d inputs) (Fin 0)
      \<and> jge (error_rate_manual_d inputs) (Fin 0) \<and> jge (error_cost_d inputs) (Fin 0)
      \<and> jge (time_horizon_months_d inputs) (Fin 0)
      \<and> jge (one_time_implementation_cost_d inputs) (Fin 0))"

text \<open>
  A collection held in memory, on which the handlers are run: documents by identifier.
  As in Mongoose, an identifier is an ObjectId, written as 24 hexadecimal digits; the
  look-up of a string that is not one throws (a cast error), the look-up of an ObjectId
  that is not in the collection resolves to \<^verbatim>\<open>null\<close>.  Saving stores the document under the
  next identifier.
\<close>

type_synonym memory = "(string \<times> scenario) list"



definition object_id :: "nat \<Rightarrow> string" where
  "object_id n = map (\<lambda>k. ''0123456789abcdef'' ! ((n div 16 ^ k) mod 16)) (rev [0..<24])"

definition memory_save :: "memory \<Rightarrow> scenario \<Rightarrow> memory \<times> scenario option" where
  "memory_save db doc = (db @ [(object_id (Suc (length db)), doc)], Some doc)"


definition unnamed_payload :: payload where
  "unnamed_payload = inputs.extend scenario_1 (payload.fields None)"






section \<open>Rounding to binary64 keeps lower bounds\<close>

lemma bit_length_bounds:
  "0 < n \<Longrightarrow> 2 ^ (bit_length n - 1) \<le> n \<and> n < 2 ^ bit_length n"
proof (induction n rule: bit_length.induct)
  case (1 n)
  show ?case
  proof (cases "n div 2 = 0")
    case True
    with 1 have "n = 1" by (auto simp: div_eq_0_iff)
    then show ?thesis by (simp add: bit_length.simps)
  next
    case False
    with 1 have IH: "2 ^ (bit_length (n div 2) - 1) \<le> n div 2" "n div 2 < 2 ^ bit_length (n div 2)"
      by auto
    have bl: "bit_length n = Suc (bit_length (n div 2))"
      using 1 by (subst bit_length.simps) simp
    have pos: "0 < bit_length (n div 2)"
      using False by (subst bit_length.simps) simp
    then have "(2::nat) ^ bit_length (n div 2) = 2 * 2 ^ (bit_length (n div 2) - 1)"
      by (cases "bit_length (n div 2)") simp_all
    with IH have "2 ^ bit_length (n div 2) \<le> n" by linarith
    moreover have "n < 2 * 2 ^ bit_length (n div 2)" using IH(2) by linarith
    ultimately show ?thesis by (simp add: bl)
  qed
qed

lemma bit_length_pos: "0 < n \<Longrightarrow> 0 < bit_length n"
  by (subst bit_length.simps) simp

lemma pow2_powi: "pow2 e = 2 powi e"
  by (simp add: pow2_def power_int_def inverse_eq_divide power_one_over)

lemma pow2_pos: "0 < pow2 e"
  by (simp add: pow2_def)

lemma pow2_add: "pow2 (a + b) = pow2 a * pow2 b"
  by (simp add: pow2_powi power_int_add)

lemma pow2_mono: "a \<le> b \<Longrightarrow> pow2 a \<le> pow2 b"
  by (simp add: pow2_powi power_int_increasing)

lemma ilog2_bounds:
  assumes "0 < x"
  shows "pow2 (ilog2 x) \<le> x \<and> x < pow2 (ilog2 x + 1)"
proof (cases "1 \<le> x")
  case True
  define n where "n = nat \<lfloor>x\<rfloor>"
  have n: "0 < n" "of_nat n \<le> x" "x < of_nat n + 1"
    using True by (auto simp: n_def le_floor_iff) linarith+
  have il: "ilog2 x = int (bit_length n) - 1"
    using True by (simp add: ilog2_def n_def)
  from bit_length_bounds [OF n(1)] bit_length_pos [OF n(1)]
  have b: "2 ^ (bit_length n - 1) \<le> n" "n + 1 \<le> 2 ^ bit_length n" by auto
  have e1: "pow2 (ilog2 x) = 2 ^ (bit_length n - 1)"
    using bit_length_pos [OF n(1)] by (simp add: il pow2_def nat_diff_distrib)
  have e2: "pow2 (ilog2 x + 1) = 2 ^ bit_length n"
    by (simp add: il pow2_def)
  have "(of_nat (2 ^ (bit_length n - 1)) :: rat) \<le> of_nat n"
    using b(1) by (rule of_nat_mono)
  then have "(2::rat) ^ (bit_length n - 1) \<le> of_nat n"
    by (simp only: of_nat_power of_nat_numeral)
  moreover have "(of_nat (n + 1) :: rat) \<le> of_nat (2 ^ bit_length n)"
    using b(2) by (rule of_nat_mono)
  then have "(of_nat n :: rat) + 1 \<le> 2 ^ bit_length n"
    by (simp only: of_nat_power of_nat_numeral of_nat_add of_nat_1)
  ultimately show ?thesis using n unfolding e1 e2 by linarith
next
  case False
  define y where "y = 1 / x"
  define m where "m = nat (\<lceil>y\<rceil> - 1)"
  have y: "1 < y" using assms False by (simp add: y_def)
  then have c: "2 \<le> \<lceil>y\<rceil>" by linarith
  have m: "0 < m" "of_nat m < y" "y \<le> of_nat m + 1"
    using c by (auto simp: m_def) linarith+
  have il: "ilog2 x = - int (bit_length m)"
    using False by (simp add: ilog2_def m_def y_def)
  from bit_length_bounds [OF m(1)] bit_length_pos [OF m(1)]
  have b: "2 ^ (bit_length m - 1) \<le> m" "m + 1 \<le> 2 ^ bit_length m" "0 < bit_length m" by auto
  have e1: "pow2 (ilog2 x) = 1 / 2 ^ bit_length m"
    using b(3) by (simp add: il pow2_def)
  have e2: "pow2 (ilog2 x + 1) = 1 / 2 ^ (bit_length m - 1)"
    using b(3) by (auto simp: il pow2_def nat_diff_distrib)
  have "(of_nat (2 ^ (bit_length m - 1)) :: rat) \<le> of_nat m"
    using b(1) by (rule of_nat_mono)
  then have "(2::rat) ^ (bit_length m - 1) \<le> of_nat m"
    by (simp only: of_nat_power of_nat_numeral)
  then have lo: "2 ^ (bit_length m - 1) < y" using m(2) by linarith
  have "(of_nat (m + 1) :: rat) \<le> of_nat (2 ^ bit_length m)"
    using b(2) by (rule of_nat_mono)
  then have "(of_nat m :: rat) + 1 \<le> 2 ^ bit_length m"
    by (simp only: of_nat_power of_nat_numeral of_nat_add of_nat_1)
  then have hi: "y \<le> 2 ^ bit_length m" using m(3) by linarith
  have x: "1 / y = x" by (simp add: y_def)
  have "1 / 2 ^ bit_length m \<le> 1 / y"
    using hi y by (intro divide_left_mono) auto
  moreover have "1 / y < 1 / 2 ^ (bit_length m - 1)"
    using lo y by (intro divide_strict_left_mono) (auto intro: mult_pos_pos)
  ultimately show ?thesis unfolding e1 e2 x by blast
qed

lemma ilog2_mono:
  assumes "0 < x" "x \<le> y"
  shows "ilog2 x \<le> ilog2 y"
proof (rule ccontr)
  assume "\<not> ilog2 x \<le> ilog2 y"
  then have "ilog2 y + 1 \<le> ilog2 x" by simp
  then have "pow2 (ilog2 y + 1) \<le> pow2 (ilog2 x)" by (rule pow2_mono)
  moreover have "y < pow2 (ilog2 y + 1)" using ilog2_bounds [of y] assms by simp
  moreover have "pow2 (ilog2 x) \<le> x" using ilog2_bounds [of x] assms by simp
  ultimately show False using assms by linarith
qed

lemma rne_ge_floor: "\<lfloor>q\<rfloor> \<le> rne q"
  by (simp add: rne_def Let_def)

lemma rne_ge: "of_int k \<le> q \<Longrightarrow> k \<le> rne q"
  using rne_ge_floor [of q] by (simp add: le_floor_iff [symmetric])


lemma fl_ge:
  assumes "0 < b" "b = of_int k * pow2 (ulp_exp b)" "b \<le> x"
  shows "jge (fl x) (Fin b)"
proof -
  have xpos: "0 < x" using assms by linarith
  define u where "u = pow2 (ulp_exp x)"
  have upos: "0 < u" by (simp add: u_def pow2_pos)
  define y where "y = of_int (rne (x / u)) * u"
  have flx: "fl x = (if 2 ^ 1024 \<le> \<bar>y\<bar> then PInf else Fin y)"
    using xpos by (simp add: fl_def Let_def u_def y_def)
  have "b \<le> y"
  proof (cases "ulp_exp b = ulp_exp x")
    case True
    then have b: "b = of_int k * u" using assms(2) by (simp add: u_def)
    then have "of_int k \<le> x / u" using assms(3) upos by (simp add: pos_le_divide_eq)
    then have "k \<le> rne (x / u)" by (rule rne_ge)
    then have "(of_int k :: rat) \<le> of_int (rne (x / u))" by simp
    then show ?thesis unfolding b y_def using upos by (simp add: mult_right_mono)
  next
    case False
    have "ilog2 b \<le> ilog2 x" using assms by (intro ilog2_mono) auto
    with False have lt: "ilog2 b < ilog2 x" and big: "- 1022 < ilog2 x"
      using assms(1) xpos by (auto simp: ulp_exp_def max_def split: if_splits)
    have ux: "ulp_exp x = ilog2 x - 52" using big xpos by (simp add: ulp_exp_def)
    have "pow2 (ilog2 x) = pow2 (52 + ulp_exp x)" by (simp add: ux)
    also have "\<dots> = 2 ^ 52 * u" unfolding pow2_add u_def by (simp add: pow2_def)
    finally have px: "pow2 (ilog2 x) = 2 ^ 52 * u" .
    have "pow2 (ilog2 x) \<le> x" using ilog2_bounds [OF xpos] by simp
    then have "of_int (2 ^ 52) \<le> x / u" using upos by (simp add: px pos_le_divide_eq)
    then have "2 ^ 52 \<le> rne (x / u)" by (rule rne_ge)
    then have "(of_int (2 ^ 52) :: rat) \<le> of_int (rne (x / u))" by (simp only: of_int_le_iff)
    then have "2 ^ 52 * u \<le> y" unfolding y_def using upos by (simp add: mult_right_mono)
    then have "pow2 (ilog2 x) \<le> y" by (simp add: px)
    moreover have "pow2 (ilog2 b + 1) \<le> pow2 (ilog2 x)" using lt by (intro pow2_mono) simp
    moreover have "b < pow2 (ilog2 b + 1)" using ilog2_bounds [OF assms(1)] by simp
    ultimately show ?thesis by linarith
  qed
  then show ?thesis by (simp add: flx jge_def)
qed

lemma fl_ge_1: "1 \<le> x \<Longrightarrow> jge (fl x) (Fin 1)"
  by (rule fl_ge [where k = "2 ^ 52"])
    (simp_all add: ulp_exp_def ilog2_def pow2_def bit_length.simps)

lemma fl_ge_100: "100 \<le> x \<Longrightarrow> jge (fl x) (Fin 100)"
  by (rule fl_ge [where k = "100 * 2 ^ 46"])
    (simp_all add: ulp_exp_def ilog2_def pow2_def bit_length.simps)


section \<open>Evaluation on concrete Numbers\<close>

lemma floor_rat_numeral: "\<lfloor>numeral a / numeral b :: rat\<rfloor> = numeral a div numeral b"
  by (metis floor_divide_of_int_eq of_int_numeral)

lemma floor_rat_neg_numeral:
  "\<lfloor>- (numeral a / numeral b) :: rat\<rfloor> = - numeral a div numeral b"
  by (metis floor_divide_of_int_eq of_int_numeral of_int_minus minus_divide_left)

lemma ceiling_rat_numeral: "\<lceil>numeral a / numeral b :: rat\<rceil> = - (- numeral a div numeral b)"
  unfolding ceiling_def by (simp add: floor_rat_neg_numeral)

lemma ceiling_rat_neg_numeral:
  "\<lceil>- (numeral a / numeral b) :: rat\<rceil> = - (numeral a div numeral b)"
  unfolding ceiling_def by (simp add: floor_rat_numeral)

lemmas fl_eval =
  fl_def lit_def ulp_exp_def ilog2_def pow2_def rne_def bit_length.simps Let_def
  floor_rat_numeral floor_rat_neg_numeral ceiling_rat_numeral ceiling_rat_neg_numeral

lemmas op_eval = jsub_def jgt_def jge_def Math_max_def inf_of_sign_def Number_EPSILON_def

lemmas destructure =
  or_default_def monthly_invoice_volume_d_def num_ap_staff_d_def avg_hours_per_invoice_d_def
  hourly_wage_d_def error_rate_manual_d_def error_cost_d_def time_horizon_months_d_def
  one_time_implementation_cost_d_def

lemma automated_cost_per_invoice_value:
  "automated_cost_per_invoice = Fin (3602879701896397 / 2 ^ 54)"
  by (simp add: automated_cost_per_invoice_def fl_eval)

lemma error_rate_auto_value: "error_rate_auto = Fin (3602879701896397 / 2 ^ 55)"
  by (simp add: error_rate_auto_def fl_eval)

lemma min_roi_boost_factor_value: "min_roi_boost_factor = Fin (2476979795053773 / 2 ^ 51)"
  by (simp add: min_roi_boost_factor_def fl_eval)

section \<open>Lower bounds through the rounding helper and the floor\<close>

lemma round_js_PInf: "round_js PInf = PInf"
  by (simp add: round_js_def op_eval)

lemma round_js_NInf: "round_js NInf = NInf"
  by (simp add: round_js_def op_eval)

lemma round_js_NaN: "round_js NaN = NaN"
  by (simp add: round_js_def op_eval)

lemma jge_Fin_trans: "jge x (Fin a) \<Longrightarrow> b \<le> a \<Longrightarrow> jge x (Fin b)"
  by (cases x) (auto simp: jge_def)

lemma jmul_100_ge: "jge w (Fin 1) \<Longrightarrow> jge (jmul w (Fin 100)) (Fin 100)"
proof (cases w)
  case (Fin b)
  assume "jge w (Fin 1)"
  with Fin have "100 \<le> b * 100" by (simp add: jge_def)
  then show ?thesis using Fin by (simp add: fl_ge_100)
qed (simp_all add: op_eval)

lemma Math_round_ge: "jge w (Fin 100) \<Longrightarrow> jge (Math_round w) (Fin 100)"
proof (cases w)
  case (Fin b)
  assume "jge w (Fin 100)"
  with Fin have "100 \<le> b" by (simp add: jge_def)
  then have "(100::int) \<le> \<lfloor>b + 1 / 2\<rfloor>" by (simp add: le_floor_iff)
  then have "(100::rat) \<le> of_int \<lfloor>b + 1 / 2\<rfloor>" by linarith
  then show ?thesis using Fin by (simp add: jge_def)
qed (simp_all add: op_eval)

lemma jdiv_100_ge: "jge w (Fin 100) \<Longrightarrow> jge (jdiv w (Fin 100)) (Fin 1)"
proof (cases w)
  case (Fin b)
  assume "jge w (Fin 100)"
  with Fin have "1 \<le> b / 100" by (simp add: jge_def)
  then show ?thesis using Fin by (simp add: fl_ge_1)
qed (simp_all add: op_eval)

lemma jadd_EPSILON_ge: "jge v (Fin 1) \<Longrightarrow> jge (jadd v Number_EPSILON) (Fin 1)"
proof (cases v)
  case (Fin a)
  assume "jge v (Fin 1)"
  with Fin have "1 \<le> a + 1 / 2 ^ 52" by (simp add: jge_def)
  then show ?thesis using Fin by (simp add: Number_EPSILON_def fl_ge_1)
qed (simp_all add: op_eval)

lemma round_js_ge_1: "jge v (Fin 1) \<Longrightarrow> jge (round_js v) (Fin 1)"
  unfolding round_js_def
  by (intro jdiv_100_ge Math_round_ge jmul_100_ge jadd_EPSILON_ge)

lemma fl_ge_boost:
  "2476979795053773 / 2 ^ 51 \<le> x \<Longrightarrow> jge (fl x) (Fin (2476979795053773 / 2 ^ 51))"
  by (rule fl_ge [where k = "4953959590107546"])
    (simp_all add: ulp_exp_def ilog2_def pow2_def bit_length.simps floor_rat_numeral)

lemma floor_ge_boost:
  assumes "jlt b (Fin 1)"
  shows "jge (jmul (Math_max (Fin 1) (Math_abs b)) min_roi_boost_factor) min_roi_boost_factor"
proof (cases b)
  case (Fin a)
  have "2476979795053773 / 2 ^ 51 \<le> max 1 \<bar>a\<bar> * (2476979795053773 / 2 ^ 51)"
    by (simp add: max_def)
  then have "jge (fl (max 1 \<bar>a\<bar> * (2476979795053773 / 2 ^ 51))) (Fin (2476979795053773 / 2 ^ 51))"
    by (rule fl_ge_boost)
  moreover have "Math_max (Fin 1) (Math_abs b) = Fin (max 1 \<bar>a\<bar>)"
    using Fin by (simp add: Math_max_def max_def)
  ultimately show ?thesis by (simp add: min_roi_boost_factor_value)
qed (use assms in \<open>simp_all add: min_roi_boost_factor_value op_eval\<close>)

lemma monthly_savings_v_ge_1:
  "monthly_savings_v inputs = NaN \<or> jge (monthly_savings_v inputs) (Fin 1)"
proof (cases "jlt (monthly_savings_biased inputs) (Fin 1)")
  case True
  then have "jge (monthly_savings_v inputs) min_roi_boost_factor"
    by (simp add: monthly_savings_v_def floor_ge_boost)
  then have "jge (monthly_savings_v inputs) (Fin 1)"
    unfolding min_roi_boost_factor_value by (rule jge_Fin_trans) simp
  then show ?thesis ..
next
  case False
  then show ?thesis by (simp add: monthly_savings_v_def jge_def)
qed

lemma jdiv_0_ge_1: "jge m (Fin 1) \<Longrightarrow> jdiv (Fin 0) m = Fin 0"
  by (cases m) (auto simp: jge_def fl_def)

lemma jgt_0_ge_1: "jge m (Fin 1) \<Longrightarrow> jgt m (Fin 0)"
  by (cases m) (auto simp: jge_def jgt_def)

lemma fl_ge_110: "110 \<le> x \<Longrightarrow> jge (fl x) (Fin 110)"
  by (rule fl_ge [where k = "110 * 2 ^ 46"])
    (simp_all add: ulp_exp_def ilog2_def pow2_def bit_length.simps)

lemma fl_ge_boost_literal:
  assumes "11 / 10 \<le> x"
  shows "jge (fl x) (Fin (2476979795053773 / 2 ^ 51))"
proof (cases "2476979795053773 / 2 ^ 51 \<le> x")
  case True
  then show ?thesis by (rule fl_ge_boost)
next
  case False
  then have hi: "x < 2476979795053773 / 2 ^ 51" by simp
  have "\<lfloor>x\<rfloor> = 1" using assms hi by (intro floor_unique) simp_all
  then have "ilog2 x = 0" using assms by (simp add: ilog2_def bit_length.simps)
  then have u: "pow2 (ulp_exp x) = 1 / 2 ^ 52"
    using assms by (simp add: ulp_exp_def pow2_def)
  define q where "q = x / (1 / 2 ^ 52)"
  have q: "4953959590107545 + 6 / 10 \<le> q" "q < 4953959590107546"
    using assms hi by (simp_all add: q_def)
  then have f: "\<lfloor>q\<rfloor> = 4953959590107545" by (intro floor_unique) simp_all
  have r: "rne q = 4953959590107546"
    using q by (simp add: rne_def Let_def f)
  have "x \<noteq> 0" using assms by auto
  then have "fl x =
      (if (2::rat) ^ 1024 \<le> \<bar>of_int (rne q) * (1 / 2 ^ 52)\<bar> then (if 0 < x then PInf else NInf)
       else Fin (of_int (rne q) * (1 / 2 ^ 52)))"
    unfolding fl_def Let_def u q_def by (simp only: if_False)
  then have "fl x = Fin (2476979795053773 / 2 ^ 51)"
    unfolding r by simp
  then show ?thesis by (simp add: jge_def)
qed

lemma jadd_EPSILON_ge_boost:
  "jge v min_roi_boost_factor \<Longrightarrow> jge (jadd v Number_EPSILON) min_roi_boost_factor"
proof (cases v)
  case (Fin a)
  assume "jge v min_roi_boost_factor"
  with Fin have "2476979795053773 / 2 ^ 51 \<le> a + 1 / 2 ^ 52"
    by (simp add: jge_def min_roi_boost_factor_value)
  then show ?thesis
    using Fin fl_ge_boost [of "a + 1 / 2 ^ 52"]
    by (simp add: Number_EPSILON_def min_roi_boost_factor_value)
qed (simp_all add: op_eval min_roi_boost_factor_value)

lemma jmul_100_ge_110: "jge w min_roi_boost_factor \<Longrightarrow> jge (jmul w (Fin 100)) (Fin 110)"
proof (cases w)
  case (Fin b)
  assume "jge w min_roi_boost_factor"
  with Fin have "110 \<le> b * 100" by (simp add: jge_def min_roi_boost_factor_value)
  then show ?thesis using Fin by (simp add: fl_ge_110)
qed (simp_all add: op_eval min_roi_boost_factor_value)

lemma Math_round_ge_110: "jge w (Fin 110) \<Longrightarrow> jge (Math_round w) (Fin 110)"
proof (cases w)
  case (Fin b)
  assume "jge w (Fin 110)"
  with Fin have "110 \<le> b" by (simp add: jge_def)
  then have "(110::int) \<le> \<lfloor>b + 1 / 2\<rfloor>" by (simp add: le_floor_iff)
  then have "(110::rat) \<le> of_int \<lfloor>b + 1 / 2\<rfloor>" by linarith
  then show ?thesis using Fin by (simp add: jge_def)
qed (simp_all add: op_eval)

lemma jdiv_100_ge_boost: "jge w (Fin 110) \<Longrightarrow> jge (jdiv w (Fin 100)) min_roi_boost_factor"
proof (cases w)
  case (Fin b)
  assume "jge w (Fin 110)"
  with Fin have "11 / 10 \<le> b / 100" by (simp add: jge_def)
  then have "jge (fl (b / 100)) (Fin (2476979795053773 / 2 ^ 51))"
    by (rule fl_ge_boost_literal)
  then show ?thesis using Fin by (simp add: min_roi_boost_factor_value)
qed (simp_all add: op_eval min_roi_boost_factor_value)

lemma round_js_ge_boost:
  "jge v min_roi_boost_factor \<Longrightarrow> jge (round_js v) min_roi_boost_factor"
  unfolding round_js_def
  by (intro jdiv_100_ge_boost Math_round_ge_110 jmul_100_ge_110 jadd_EPSILON_ge_boost)


section \<open>The calculator on the scenarios of the specification\<close>

lemmas locals_defs =
  labor_cost_manual_v_def auto_cost_v_def error_savings_v_def errorManualPct_def errorAutoPct_def
  monthly_savings_raw_def monthly_savings_biased_def monthly_savings_v_def
  cumulative_savings_v_def net_savings_v_def payback_months_v_def roi_percentage_v_def

lemmas constants_value =
  automated_cost_per_invoice_value error_rate_auto_value min_roi_boost_factor_value

lemma scenario_1_fields:
  "monthly_invoice_volume_d scenario_1 = Fin 2000"
  "num_ap_staff_d scenario_1 = Fin 3"
  "avg_hours_per_invoice_d scenario_1 = lit (17 / 100)"
  "hourly_wage_d scenario_1 = Fin 30"
  "error_rate_manual_d scenario_1 = lit (5 / 10)"
  "error_cost_d scenario_1 = Fin 100"
  "time_horizon_months_d scenario_1 = Fin 36"
  "one_time_implementation_cost_d scenario_1 = Fin 50000"
  by (simp_all add: scenario_1_def destructure)

lemma scenario_1_locals:
  "labor_cost_manual_v scenario_1 = Fin 30600"
  "auto_cost_v scenario_1 = Fin 400"
  "error_savings_v scenario_1 = Fin 800"
  "monthly_savings_raw scenario_1 = Fin 31000"
  "monthly_savings_biased scenario_1 = Fin 34100"
  "monthly_savings_v scenario_1 = Fin 34100"
  "cumulative_savings_v scenario_1 = Fin 1227600"
  "net_savings_v scenario_1 = Fin 1177600"
  "payback_months_v scenario_1 = Fin (3301759257603003 / 2 ^ 51)"
  "roi_percentage_v scenario_1 = Fin (2589569785738035 / 2 ^ 40)"
proof -
  show l: "labor_cost_manual_v scenario_1 = Fin 30600"
    by (simp add: labor_cost_manual_v_def scenario_1_fields fl_eval)
  show a: "auto_cost_v scenario_1 = Fin 400"
    by (simp add: auto_cost_v_def constants_value scenario_1_fields fl_eval)
  show e: "error_savings_v scenario_1 = Fin 800"
    by (simp add: error_savings_v_def errorManualPct_def errorAutoPct_def constants_value
        scenario_1_fields jsub_def fl_eval)
  show r: "monthly_savings_raw scenario_1 = Fin 31000"
    by (simp add: monthly_savings_raw_def l a e jsub_def fl_eval)
  show b: "monthly_savings_biased scenario_1 = Fin 34100"
    by (simp add: monthly_savings_biased_def r constants_value fl_eval)
  show m: "monthly_savings_v scenario_1 = Fin 34100"
    by (simp add: monthly_savings_v_def b)
  show c: "cumulative_savings_v scenario_1 = Fin 1227600"
    by (simp add: cumulative_savings_v_def m scenario_1_fields fl_eval)
  show n: "net_savings_v scenario_1 = Fin 1177600"
    by (simp add: net_savings_v_def c scenario_1_fields jsub_def fl_eval)
  show "payback_months_v scenario_1 = Fin (3301759257603003 / 2 ^ 51)"
    by (simp add: payback_months_v_def m jgt_def scenario_1_fields fl_eval)
  show "roi_percentage_v scenario_1 = Fin (2589569785738035 / 2 ^ 40)"
    by (simp add: roi_percentage_v_def n jgt_def scenario_1_fields fl_eval)
qed

lemma scenario_1_rounded:
  "round_js (Fin 30600) = Fin 30600"
  "round_js (Fin 400) = Fin 400"
  "round_js (Fin 800) = Fin 800"
  "round_js (Fin 34100) = Fin 34100"
  "round_js (Fin 1227600) = Fin 1227600"
  "round_js (Fin 1177600) = Fin 1177600"
  "round_js (Fin (2589569785738035 / 2 ^ 40)) = lit (23552 / 10)"
  "jdiv (round_js (jmul (Fin (3301759257603003 / 2 ^ 51)) (Fin 100))) (Fin 100)
     = lit (14663 / 10000)"
  "round_js (Fin (3301759257603003 / 2 ^ 51)) = lit (147 / 100)"
  by (simp_all add: round_js_def Number_EPSILON_def fl_eval)

text \<open>
  C5.  On the first scenario of the specification \<^verbatim>\<open>computeResults\<close> returns
  \<open>labor_cost_manual = 30600\<close>, \<open>auto_cost = 400\<close>, \<open>error_savings = 800\<close>,
  \<open>monthly_savings = 34100\<close>, \<open>cumulative_savings = 1227600\<close>, \<open>net_savings = 1177600\<close>
  and \<open>roi_percentage = 2355.2\<close>, as the specification says; but \<open>payback_months\<close> is
  \<open>1.4663\<close>, not \<open>50000 / 34100\<close> rounded to two decimals (\<open>1.47\<close>).
\<close>

theorem scenario_1_results:
  "computeResults scenario_1 =
     \<lparr>labor_cost_manual = Fin 30600, auto_cost = Fin 400, error_savings = Fin 800,
      monthly_savings = Fin 34100, cumulative_savings = Fin 1227600,
      net_savings = Fin 1177600, payback_months = lit (14663 / 10000),
      roi_percentage = lit (23552 / 10)\<rparr>
   \<and> lit (14663 / 10000) \<noteq> lit (147 / 100)"
proof
  show "computeResults scenario_1 =
     \<lparr>labor_cost_manual = Fin 30600, auto_cost = Fin 400, error_savings = Fin 800,
      monthly_savings = Fin 34100, cumulative_savings = Fin 1227600,
      net_savings = Fin 1177600, payback_months = lit (14663 / 10000),
      roi_percentage = lit (23552 / 10)\<rparr>"
    unfolding computeResults_def scenario_1_locals scenario_1_rounded ..
  show "lit (14663 / 10000) \<noteq> lit (147 / 100)"
    by (simp add: fl_eval)
qed

text \<open>
  C4.  The field \<open>payback_months\<close> is not the computed value rounded to two decimals by the
  helper: line 81 multiplies by 100 before the helper and divides by 100 after it, which
  keeps four decimals.  On the first scenario the field is \<open>1.4663\<close>, the helper applied to
  the computed value gives \<open>1.47\<close>.
\<close>

theorem payback_months_keeps_4_places:
  "payback_months (computeResults scenario_1) = lit (14663 / 10000)
   \<and> round_js (payback_months_v scenario_1) = lit (147 / 100)
   \<and> payback_months (computeResults scenario_1) \<noteq> round_js (payback_months_v scenario_1)"
proof -
  have p: "payback_months (computeResults scenario_1) = lit (14663 / 10000)"
    unfolding computeResults_def scenario_1_locals scenario_1_rounded by simp
  have q: "round_js (payback_months_v scenario_1) = lit (147 / 100)"
    unfolding scenario_1_locals scenario_1_rounded ..
  have "lit (14663 / 10000) \<noteq> lit (147 / 100)"
    by (simp add: fl_eval)
  with p q show ?thesis by simp
qed

section \<open>The floor and the bias\<close>

lemma fifty_invoices_fields:
  "monthly_invoice_volume_d fifty_invoices = Fin 50"
  "num_ap_staff_d fifty_invoices = Fin 0"
  "avg_hours_per_invoice_d fifty_invoices = Fin 0"
  "hourly_wage_d fifty_invoices = Fin 0"
  "error_rate_manual_d fifty_invoices = Fin 0"
  "error_cost_d fifty_invoices = Fin 0"
  "time_horizon_months_d fifty_invoices = Fin 36"
  "one_time_implementation_cost_d fifty_invoices = Fin 0"
  by (simp_all add: fifty_invoices_def no_inputs_def destructure)

lemma fifty_invoices_locals:
  "labor_cost_manual_v fifty_invoices = Fin 0"
  "auto_cost_v fifty_invoices = Fin 10"
  "error_savings_v fifty_invoices = Fin 0"
  "monthly_savings_raw fifty_invoices = Fin (- 10)"
  "monthly_savings_biased fifty_invoices = Fin (- 11)"
  "monthly_savings_v fifty_invoices = Fin (1702923609099469 / 2 ^ 47)"
proof -
  show l: "labor_cost_manual_v fifty_invoices = Fin 0"
    by (simp add: labor_cost_manual_v_def fifty_invoices_fields fl_eval)
  show a: "auto_cost_v fifty_invoices = Fin 10"
    by (simp add: auto_cost_v_def constants_value fifty_invoices_fields fl_eval)
  show e: "error_savings_v fifty_invoices = Fin 0"
    by (simp add: error_savings_v_def errorManualPct_def errorAutoPct_def constants_value
        fifty_invoices_fields jsub_def fl_eval)
  show r: "monthly_savings_raw fifty_invoices = Fin (- 10)"
    by (simp add: monthly_savings_raw_def l a e jsub_def fl_eval)
  show b: "monthly_savings_biased fifty_invoices = Fin (- 11)"
    by (simp add: monthly_savings_biased_def r constants_value fl_eval)
  show "monthly_savings_v fifty_invoices = Fin (1702923609099469 / 2 ^ 47)"
    by (simp add: monthly_savings_v_def b constants_value Math_max_def fl_eval)
qed

text \<open>
  C1, as stated, fails.  With fifty invoices a month and nothing else the raw monthly
  savings are \<open>-10\<close> and the biased value is \<open>-11\<close>, below 1.  The claim's value
  \<open>max(1, |raw|) * 1.1\<close> is 11; the code computes \<open>max(1, |-11|) * 1.1\<close>, a little above
  12.1, and returns 12.1.
\<close>

theorem floor_base_counterexample:
  "jlt (monthly_savings_biased fifty_invoices) (Fin 1)
   \<and> jmul (Math_max (Fin 1) (Math_abs (monthly_savings_raw fifty_invoices))) min_roi_boost_factor
       = Fin 11
   \<and> monthly_savings_v fifty_invoices = Fin (1702923609099469 / 2 ^ 47)
   \<and> monthly_savings (computeResults fifty_invoices) = lit (121 / 10)
   \<and> monthly_savings_v fifty_invoices
       \<noteq> jmul (Math_max (Fin 1) (Math_abs (monthly_savings_raw fifty_invoices)))
           min_roi_boost_factor"
proof -
  have 1: "jlt (monthly_savings_biased fifty_invoices) (Fin 1)"
    by (simp add: fifty_invoices_locals)
  have 2: "jmul (Math_max (Fin 1) (Math_abs (monthly_savings_raw fifty_invoices)))
      min_roi_boost_factor = Fin 11"
    by (simp add: fifty_invoices_locals constants_value Math_max_def fl_eval)
  have 3: "monthly_savings_v fifty_invoices = Fin (1702923609099469 / 2 ^ 47)"
    by (rule fifty_invoices_locals)
  have 4: "monthly_savings (computeResults fifty_invoices) = lit (121 / 10)"
    by (simp add: computeResults_def 3 round_js_def Number_EPSILON_def fl_eval)
  have 5: "Fin (1702923609099469 / 2 ^ 47) \<noteq> Fin 11"
    by simp
  show ?thesis
    unfolding 2 3 using 1 4 5 unfolding 2 3 by blast
qed

text \<open>
  C1, amended.  For every input the floor is taken on the biased value: with
  \<open>b = monthly_savings_raw * 1.1\<close>, the monthly savings used from line 66 on are
  \<open>max(1, |b|) * 1.1\<close> when \<open>b < 1\<close>, and \<open>b\<close> otherwise.
\<close>

theorem floor_policy_on_biased_value:
  "monthly_savings_raw inputs
     = jsub (jadd (labor_cost_manual_v inputs) (error_savings_v inputs)) (auto_cost_v inputs)
   \<and> monthly_savings_v inputs
     = (if jlt (jmul (monthly_savings_raw inputs) min_roi_boost_factor) (Fin 1)
        then jmul (Math_max (Fin 1)
                     (Math_abs (jmul (monthly_savings_raw inputs) min_roi_boost_factor)))
               min_roi_boost_factor
        else jmul (monthly_savings_raw inputs) min_roi_boost_factor)
   \<and> cumulative_savings_v inputs = jmul (monthly_savings_v inputs) (time_horizon_months_d inputs)
   \<and> monthly_savings (computeResults inputs) = round_js (monthly_savings_v inputs)"
  by (simp add: monthly_savings_raw_def monthly_savings_v_def monthly_savings_biased_def
      cumulative_savings_v_def computeResults_def)

theorem floor_policy_on_biased_value_witness:
  "jlt (jmul (monthly_savings_raw fifty_invoices) min_roi_boost_factor) (Fin 1)
   \<and> monthly_savings_v fifty_invoices
       = jmul (Math_max (Fin 1)
                 (Math_abs (jmul (monthly_savings_raw fifty_invoices) min_roi_boost_factor)))
           min_roi_boost_factor"
proof -
  have "jlt (jmul (monthly_savings_raw fifty_invoices) min_roi_boost_factor) (Fin 1)"
    using fifty_invoices_locals(5) by (simp add: monthly_savings_biased_def)
  then show ?thesis
    using floor_policy_on_biased_value [of fifty_invoices] by simp
qed

section \<open>Payback and return on investment\<close>

lemma scenario_2_fields:
  "monthly_invoice_volume_d scenario_2 = Fin 0"
  "num_ap_staff_d scenario_2 = Fin 0"
  "avg_hours_per_invoice_d scenario_2 = Fin 0"
  "hourly_wage_d scenario_2 = Fin 0"
  "error_rate_manual_d scenario_2 = Fin 0"
  "error_cost_d scenario_2 = Fin 0"
  "time_horizon_months_d scenario_2 = Fin 36"
  "one_time_implementation_cost_d scenario_2 = Fin 0"
  by (simp_all add: scenario_2_def destructure)

lemma scenario_2_locals:
  "monthly_savings_raw scenario_2 = Fin 0"
  "monthly_savings_biased scenario_2 = Fin 0"
  "monthly_savings_v scenario_2 = Fin (2476979795053773 / 2 ^ 51)"
  "payback_months_v scenario_2 = Fin 0"
proof -
  have l: "labor_cost_manual_v scenario_2 = Fin 0"
    by (simp add: labor_cost_manual_v_def scenario_2_fields fl_eval)
  have a: "auto_cost_v scenario_2 = Fin 0"
    by (simp add: auto_cost_v_def constants_value scenario_2_fields fl_eval)
  have e: "error_savings_v scenario_2 = Fin 0"
    by (simp add: error_savings_v_def errorManualPct_def errorAutoPct_def constants_value
        scenario_2_fields jsub_def fl_eval)
  show r: "monthly_savings_raw scenario_2 = Fin 0"
    by (simp add: monthly_savings_raw_def l a e jsub_def fl_eval)
  show b: "monthly_savings_biased scenario_2 = Fin 0"
    by (simp add: monthly_savings_biased_def r constants_value fl_eval)
  show m: "monthly_savings_v scenario_2 = Fin (2476979795053773 / 2 ^ 51)"
    by (simp add: monthly_savings_v_def b constants_value Math_max_def fl_eval)
  show "payback_months_v scenario_2 = Fin 0"
    by (simp add: payback_months_v_def m jgt_def scenario_2_fields fl_eval)
qed

lemma payback_of_0: "jdiv (round_js (jmul (Fin 0) (Fin 100))) (Fin 100) = Fin 0"
  by (simp add: round_js_def Number_EPSILON_def fl_eval)

lemma payback_of_PInf: "jdiv (round_js (jmul PInf (Fin 100))) (Fin 100) = PInf"
  by (simp add: round_js_PInf inf_of_sign_def)

text \<open>
  C2, as stated, fails.  On the second scenario of the specification (every field zero,
  36 months) all fields are non-negative and the implementation cost is 0, yet
  \<open>payback_months\<close> is 0: the monthly savings are 1.1, which is \<open>> 0\<close>, so line 68 divides
  0 by 1.1 and does not take the infinite branch.
\<close>

theorem zero_cost_payback_counterexample:
  "all_non_negative scenario_2
   \<and> one_time_implementation_cost_d scenario_2 = Fin 0
   \<and> payback_months (computeResults scenario_2) = Fin 0
   \<and> \<not> (payback_months (computeResults scenario_2) = PInf
          \<and> roi_percentage (computeResults scenario_2) = PInf)"
proof -
  have 1: "all_non_negative scenario_2"
    by (simp add: all_non_negative_def scenario_2_fields jge_def)
  have 2: "payback_months (computeResults scenario_2) = Fin 0"
    unfolding computeResults_def scenario_2_locals payback_of_0 by simp
  show ?thesis using 1 2 by (simp add: scenario_2_fields)
qed

text \<open>
  C2, amended.  For every input whose \<open>one_time_implementation_cost\<close> is 0,
  \<open>roi_percentage\<close> is positive infinity, and \<open>payback_months\<close> is 0 (zero divided by the
  monthly savings); \<open>payback_months\<close> is positive infinity only when the monthly savings are
  NaN.
\<close>

theorem zero_cost_roi_and_payback:
  assumes "one_time_implementation_cost_d inputs = Fin 0"
  shows "roi_percentage (computeResults inputs) = PInf
    \<and> payback_months (computeResults inputs)
        = (if monthly_savings_v inputs = NaN then PInf else Fin 0)"
proof
  have "roi_percentage_v inputs = PInf"
    by (simp add: roi_percentage_v_def assms jgt_def)
  then show "roi_percentage (computeResults inputs) = PInf"
    by (simp add: computeResults_def round_js_PInf)
  show "payback_months (computeResults inputs)
      = (if monthly_savings_v inputs = NaN then PInf else Fin 0)"
  proof (cases "monthly_savings_v inputs = NaN")
    case True
    then have p: "payback_months_v inputs = PInf"
      by (simp add: payback_months_v_def jgt_def)
    show ?thesis unfolding computeResults_def p payback_of_PInf using True by simp
  next
    case False
    with monthly_savings_v_ge_1 [of inputs] have ge: "jge (monthly_savings_v inputs) (Fin 1)"
      by simp
    then have p: "payback_months_v inputs = Fin 0"
      by (simp add: payback_months_v_def assms jgt_0_ge_1 jdiv_0_ge_1)
    show ?thesis unfolding computeResults_def p payback_of_0 using False by simp
  qed
qed

theorem zero_cost_roi_and_payback_witness:
  "one_time_implementation_cost_d scenario_2 = Fin 0
   \<and> roi_percentage (computeResults scenario_2) = PInf
   \<and> payback_months (computeResults scenario_2) = Fin 0"
proof -
  have c: "one_time_implementation_cost_d scenario_2 = Fin 0"
    by (rule scenario_2_fields)
  have "monthly_savings_v scenario_2 \<noteq> NaN"
    by (simp add: scenario_2_locals)
  with zero_cost_roi_and_payback [OF c] c show ?thesis by simp
qed

text \<open>
  C10.  For every input whose \<open>one_time_implementation_cost\<close> is below 0 the test
  \<open>one_time_implementation_cost > 0\<close> of line 69 fails and \<open>roi_percentage\<close> is positive
  infinity.
\<close>

theorem negative_cost_roi_infinite:
  assumes "jlt (one_time_implementation_cost_d inputs) (Fin 0)"
  shows "roi_percentage (computeResults inputs) = PInf"
proof -
  have "\<not> jgt (one_time_implementation_cost_d inputs) (Fin 0)"
    using assms by (cases "one_time_implementation_cost_d inputs") (simp_all add: jgt_def)
  then have "roi_percentage_v inputs = PInf"
    by (simp add: roi_percentage_v_def)
  then show ?thesis
    by (simp add: computeResults_def round_js_PInf)
qed

theorem negative_cost_roi_infinite_witness:
  "jlt (one_time_implementation_cost_d negative_cost) (Fin 0)
   \<and> roi_percentage (computeResults negative_cost) = PInf"
proof -
  have c: "jlt (one_time_implementation_cost_d negative_cost) (Fin 0)"
    by (simp add: negative_cost_def scenario_1_def destructure)
  from negative_cost_roi_infinite [OF c] c show ?thesis by simp
qed

section \<open>The bound on the monthly savings\<close>

lemma one_invoice_fields:
  "monthly_invoice_volume_d one_invoice = Fin 1"
  "num_ap_staff_d one_invoice = Fin 1"
  "avg_hours_per_invoice_d one_invoice = Fin 1"
  "hourly_wage_d one_invoice = Fin (9 / 8)"
  "error_rate_manual_d one_invoice = Fin 0"
  "error_cost_d one_invoice = Fin 0"
  "time_horizon_months_d one_invoice = Fin 36"
  "one_time_implementation_cost_d one_invoice = Fin 0"
  by (simp_all add: one_invoice_def no_inputs_def destructure)

lemma one_invoice_locals:
  "monthly_savings_raw one_invoice = Fin (4165829655317709 / 2 ^ 52)"
  "monthly_savings_biased one_invoice = Fin (572801577606185 / 2 ^ 49)"
  "monthly_savings_v one_invoice = Fin (572801577606185 / 2 ^ 49)"
proof -
  have l: "labor_cost_manual_v one_invoice = Fin (9 / 8)"
    by (simp add: labor_cost_manual_v_def one_invoice_fields fl_eval)
  have a: "auto_cost_v one_invoice = Fin (3602879701896397 / 2 ^ 54)"
    by (simp add: auto_cost_v_def constants_value one_invoice_fields fl_eval)
  have e: "error_savings_v one_invoice = Fin 0"
    by (simp add: error_savings_v_def errorManualPct_def errorAutoPct_def constants_value
        one_invoice_fields jsub_def fl_eval)
  show r: "monthly_savings_raw one_invoice = Fin (4165829655317709 / 2 ^ 52)"
    by (simp add: monthly_savings_raw_def l a e jsub_def fl_eval)
  show b: "monthly_savings_biased one_invoice = Fin (572801577606185 / 2 ^ 49)"
    by (simp add: monthly_savings_biased_def r constants_value fl_eval)
  show "monthly_savings_v one_invoice = Fin (572801577606185 / 2 ^ 49)"
    by (simp add: monthly_savings_v_def b)
qed

text \<open>
  C3, as stated, fails.  One invoice a month, handled in one hour by one clerk paid 1.125
  an hour, gives raw savings of 0.925 and a biased value of 1.0175.  That is not below 1, the
  floor is not applied, and the monthly savings stay 1.0175 (1.02 in the returned field),
  below 1.1.
\<close>

theorem monthly_savings_below_boost_counterexample:
  "\<not> jlt (monthly_savings_biased one_invoice) (Fin 1)
   \<and> jlt (monthly_savings_v one_invoice) (lit (11 / 10))
   \<and> monthly_savings (computeResults one_invoice) = lit (102 / 100)
   \<and> jlt (monthly_savings (computeResults one_invoice)) (lit (11 / 10))
   \<and> \<not> jge (monthly_savings (computeResults one_invoice)) (lit (11 / 10))"
proof -
  have 1: "\<not> jlt (monthly_savings_biased one_invoice) (Fin 1)"
    by (simp add: one_invoice_locals)
  have 2: "jlt (monthly_savings_v one_invoice) (lit (11 / 10))"
    by (simp add: one_invoice_locals fl_eval)
  have 3: "monthly_savings (computeResults one_invoice) = lit (102 / 100)"
    by (simp add: computeResults_def one_invoice_locals round_js_def Number_EPSILON_def fl_eval)
  have 4: "jlt (lit (102 / 100)) (lit (11 / 10))"
    by (simp add: fl_eval)
  show ?thesis using 1 2 4 unfolding 3 by (simp add: jge_def)
qed

text \<open>
  C3, amended.  For every input the monthly savings after the floor-and-bias step are NaN
  or at least 1, and so is the returned field; when the floor is applied (the biased value
  is below 1) both the value after the step and the returned field are at least 1.1.
\<close>

theorem monthly_savings_at_least_1:
  "(monthly_savings_v inputs = NaN \<or> jge (monthly_savings_v inputs) (Fin 1))
   \<and> (monthly_savings (computeResults inputs) = NaN
       \<or> jge (monthly_savings (computeResults inputs)) (Fin 1))
   \<and> (jlt (monthly_savings_biased inputs) (Fin 1)
       \<longrightarrow> jge (monthly_savings_v inputs) (lit (11 / 10)))
   \<and> (jlt (monthly_savings_biased inputs) (Fin 1)
       \<longrightarrow> jge (monthly_savings (computeResults inputs)) (lit (11 / 10)))"
proof (intro conjI impI)
  show v: "monthly_savings_v inputs = NaN \<or> jge (monthly_savings_v inputs) (Fin 1)"
    by (rule monthly_savings_v_ge_1)
  show "monthly_savings (computeResults inputs) = NaN
      \<or> jge (monthly_savings (computeResults inputs)) (Fin 1)"
    using v by (auto simp: computeResults_def round_js_NaN round_js_ge_1)
  assume b: "jlt (monthly_savings_biased inputs) (Fin 1)"
  then have m: "jge (monthly_savings_v inputs) min_roi_boost_factor"
    by (simp add: monthly_savings_v_def floor_ge_boost)
  then show "jge (monthly_savings_v inputs) (lit (11 / 10))"
    by (simp add: min_roi_boost_factor_def)
  from m have "jge (round_js (monthly_savings_v inputs)) min_roi_boost_factor"
    by (rule round_js_ge_boost)
  then show "jge (monthly_savings (computeResults inputs)) (lit (11 / 10))"
    by (simp add: computeResults_def min_roi_boost_factor_def)
qed

theorem monthly_savings_at_least_1_witness:
  "jlt (monthly_savings_biased fifty_invoices) (Fin 1)
   \<and> jge (monthly_savings_v fifty_invoices) (lit (11 / 10))
   \<and> jge (monthly_savings (computeResults fifty_invoices)) (lit (11 / 10))
   \<and> jge (monthly_savings_v fifty_invoices) (Fin 1)
   \<and> jge (monthly_savings (computeResults fifty_invoices)) (Fin 1)"
proof -
  have b: "jlt (monthly_savings_biased fifty_invoices) (Fin 1)"
    by (simp add: fifty_invoices_locals)
  have n: "monthly_savings_v fifty_invoices \<noteq> NaN"
    by (simp add: fifty_invoices_locals)
  have m: "monthly_savings (computeResults fifty_invoices) \<noteq> NaN"
    by (simp add: computeResults_def fifty_invoices_locals round_js_def Number_EPSILON_def
        fl_eval)
  from monthly_savings_at_least_1 [of fifty_invoices] b n m show ?thesis by blast
qed

section \<open>Cumulative savings\<close>

lemma one_invoice_100_locals:
  "monthly_savings_v one_invoice_100 = Fin (572801577606185 / 2 ^ 49)"
  "time_horizon_months_d one_invoice_100 = Fin 100"
  "cumulative_savings_v one_invoice_100 = Fin (407 / 4)"
proof -
  have "monthly_savings_v one_invoice_100 = monthly_savings_v one_invoice"
    by (simp add: locals_defs one_invoice_100_def destructure)
  then show m: "monthly_savings_v one_invoice_100 = Fin (572801577606185 / 2 ^ 49)"
    by (simp only: one_invoice_locals)
  show h: "time_horizon_months_d one_invoice_100 = Fin 100"
    by (simp add: one_invoice_100_def destructure)
  show "cumulative_savings_v one_invoice_100 = Fin (407 / 4)"
    by (simp add: cumulative_savings_v_def m h fl_eval)
qed

text \<open>
  C6, as stated, fails.  For one invoice a month over 100 months the monthly savings are
  1.0175 and the returned \<open>monthly_savings\<close> field is 1.02.  The returned
  \<open>cumulative_savings\<close> is 101.75, computed from the unrounded 1.0175; the returned field
  times 100, rounded, is 102.
\<close>

theorem cumulative_savings_counterexample:
  "monthly_savings (computeResults one_invoice_100) = lit (102 / 100)
   \<and> cumulative_savings (computeResults one_invoice_100) = Fin (407 / 4)
   \<and> round_js (jmul (monthly_savings (computeResults one_invoice_100))
                 (time_horizon_months_d one_invoice_100)) = Fin 102
   \<and> cumulative_savings (computeResults one_invoice_100)
       \<noteq> round_js (jmul (monthly_savings (computeResults one_invoice_100))
                      (time_horizon_months_d one_invoice_100))"
proof -
  have 1: "monthly_savings (computeResults one_invoice_100) = lit (102 / 100)"
    by (simp add: computeResults_def one_invoice_100_locals round_js_def Number_EPSILON_def
        fl_eval)
  have 2: "cumulative_savings (computeResults one_invoice_100) = Fin (407 / 4)"
    by (simp add: computeResults_def one_invoice_100_locals round_js_def Number_EPSILON_def
        fl_eval)
  have 3: "round_js (jmul (lit (102 / 100)) (Fin 100)) = Fin 102"
    by (simp add: round_js_def Number_EPSILON_def fl_eval)
  have 4: "Fin (407 / 4) \<noteq> Fin 102"
    by simp
  show ?thesis
    unfolding 1 2 one_invoice_100_locals 3 using 4 by simp
qed

text \<open>
  C6, amended.  For every input the returned \<open>cumulative_savings\<close> is the monthly savings
  before rounding (the value after the floor-and-bias step) times \<open>time_horizon_months\<close>,
  rounded by the helper.
\<close>

theorem cumulative_savings_of_unrounded_monthly:
  "cumulative_savings (computeResults inputs)
     = round_js (jmul (monthly_savings_v inputs) (time_horizon_months_d inputs))"
  by (simp add: computeResults_def cumulative_savings_v_def)

section \<open>Rounding and the infinite values\<close>

text \<open>
  C7.  The rounding helper returns positive infinity, negative infinity and NaN unchanged,
  so an infinite \<open>payback_months\<close> or \<open>roi_percentage\<close> is returned as positive infinity.
\<close>

theorem round_js_keeps_non_finite:
  "round_js PInf = PInf \<and> round_js NInf = NInf \<and> round_js NaN = NaN
   \<and> (roi_percentage_v inputs = PInf \<longrightarrow> roi_percentage (computeResults inputs) = PInf)
   \<and> (payback_months_v inputs = PInf \<longrightarrow> payback_months (computeResults inputs) = PInf)"
proof (intro conjI impI)
  assume "roi_percentage_v inputs = PInf"
  then show "roi_percentage (computeResults inputs) = PInf"
    by (simp add: computeResults_def round_js_PInf)
next
  assume p: "payback_months_v inputs = PInf"
  show "payback_months (computeResults inputs) = PInf"
    unfolding computeResults_def p payback_of_PInf by simp
qed (rule round_js_PInf round_js_NInf round_js_NaN)+

theorem round_js_keeps_non_finite_witness:
  "roi_percentage_v infinite_volume = PInf \<and> roi_percentage (computeResults infinite_volume) = PInf
   \<and> payback_months_v infinite_volume = PInf
   \<and> payback_months (computeResults infinite_volume) = PInf"
proof -
  have f: "monthly_invoice_volume_d infinite_volume = PInf"
    "num_ap_staff_d infinite_volume = Fin 0"
    "avg_hours_per_invoice_d infinite_volume = Fin 0"
    "hourly_wage_d infinite_volume = Fin 0"
    "one_time_implementation_cost_d infinite_volume = Fin 0"
    by (simp_all add: infinite_volume_def no_inputs_def destructure)
  have "labor_cost_manual_v infinite_volume = NaN"
    by (simp add: labor_cost_manual_v_def f fl_eval inf_of_sign_def)
  then have "monthly_savings_v infinite_volume = NaN"
    by (simp add: monthly_savings_v_def monthly_savings_biased_def monthly_savings_raw_def
        jsub_def)
  then have p: "payback_months_v infinite_volume = PInf"
    by (simp add: payback_months_v_def jgt_def)
  have r: "roi_percentage_v infinite_volume = PInf"
    by (simp add: roi_percentage_v_def f jgt_def)
  from round_js_keeps_non_finite [of infinite_volume] p r show ?thesis by blast
qed

section \<open>The handlers\<close>

text \<open>
  C8.  A request to save a scenario whose payload has no \<open>scenario_name\<close> is answered with
  status 400, and the collection is left as it was: nothing is saved.
\<close>

theorem save_without_name_rejected:
  assumes "scenario_name payload = None"
  shows "post_scenarios save now db payload = (Failure 400 ''Scenario name required'', db)"
  using assms by (simp add: post_scenarios_def falsy_def)

theorem save_without_name_rejected_witness:
  "scenario_name unnamed_payload = None
   \<and> post_scenarios memory_save 0 [] unnamed_payload
       = (Failure 400 ''Scenario name required'', [])"
proof -
  have n: "scenario_name unnamed_payload = None"
    by (simp add: unnamed_payload_def inputs.defs payload.defs)
  from save_without_name_rejected [OF n, of memory_save 0 "[]"] n show ?thesis by simp
qed




end
